theory Spec2Isabelle
  imports Complex_Main "HOL-Library.Char_ord" "HOL-Library.List_Lexorder"
begin

section \<open>playwright-vrt: caching, URL discovery and run orchestration\<close>

text \<open>
  A shallow embedding of the command-line tool: the cache fingerprint
  (\<open>computeConfigHash\<close>, \<open>isCacheValid\<close>), the configuration resolver
  (\<open>loadConfig\<close>, \<open>validateConfig\<close>), URL discovery (\<open>collectURLs\<close>,
  \<open>crawlWebsite\<close>, \<open>filterURLs\<close>), the runner (\<open>runVisualTests\<close>,
  \<open>parseResults\<close>) and the command line (\<open>parseArgs\<close>, \<open>main\<close>).

  Everything the program obtains from outside itself is an explicit argument:
  the functions of the JavaScript runtime and of third-party packages are the
  fields of a record \<open>runtime\<close>, and the files, network answers and child
  processes of one invocation are the fields of a record \<open>world\<close>. An
  exception is a value \<open>Inl e\<close> of a sum type; \<open>process.exit\<close> is the
  exit code that \<open>main\<close> returns, next to the list of externally visible events.
\<close>

subsection \<open>JavaScript values\<close>

text \<open>
  A parsed JSON document. A Number is a rational (every finite double is one;
  \<open>NaN\<close> and the infinities cannot come out of a JSON file). An object is
  its list of properties in insertion order; a look-up takes the first binding.
\<close>

datatype json =
    JNull
  | JBool bool
  | JNum rat
  | JStr string
  | JArr "json list"
  | JObj "(string \<times> json) list"

datatype error = Error string | TypeError string | SyntaxError string

text \<open>A file as one read of it sees it: absent, present but unreadable or
  unparsable, or holding a value.\<close>

datatype 'a file_state = NoFile | Corrupt | Holds 'a

text \<open>\<open>new Set(xs)\<close> keeps the first occurrence of each element in insertion
  order; \<open>Array.from\<close> lists the set in that order.\<close>

fun Set_add :: "'a list \<Rightarrow> 'a \<Rightarrow> 'a list" where
  "Set_add s x = (if x \<in> set s then s else s @ [x])"

definition Array_from_Set :: "'a list \<Rightarrow> 'a list" where
  "Array_from_Set xs = foldl Set_add [] xs"

text \<open>\<open>xs.slice(0, end)\<close> for an integer \<open>end\<close>: a negative \<open>end\<close> counts
  from the end of the array.\<close>

definition slice0 :: "'a list \<Rightarrow> int \<Rightarrow> 'a list" where
  "slice0 xs end =
     (let len = int (length xs);
          final = (if end < 0 then max (len + end) 0 else min end len)
      in take (nat final) xs)"

definition endsWith :: "string \<Rightarrow> string \<Rightarrow> bool" where
  "endsWith s suf = (length suf \<le> length s \<and> drop (length s - length suf) s = suf)"

text \<open>Truthiness of a string that may be \<open>undefined\<close>.\<close>

definition truthy_str :: "string option \<Rightarrow> bool" where
  "truthy_str s = (case s of None \<Rightarrow> False | Some t \<Rightarrow> t \<noteq> [])"

text \<open>Reading a property of a JSON value: \<open>null.p\<close> throws, an object
  yields the property or \<open>undefined\<close> (\<open>None\<close>), and every other value
  yields \<open>undefined\<close> for the property names this program reads
  (\<open>config\<close>, \<open>testFile\<close>, \<open>timestamp\<close>, \<open>suites\<close>, \<open>specs\<close>, \<open>ok\<close>).\<close>

fun Get :: "json \<Rightarrow> string \<Rightarrow> error + json option" where
  "Get JNull p = Inl (TypeError ''null has no properties'')"
| "Get (JObj kvs) p = Inr (map_of kvs p)"
| "Get v p = Inr None"

fun truthy :: "json option \<Rightarrow> bool" where
  "truthy None = False"
| "truthy (Some JNull) = False"
| "truthy (Some (JBool b)) = b"
| "truthy (Some (JNum n)) = (n \<noteq> 0)"
| "truthy (Some (JStr s)) = (s \<noteq> [])"
| "truthy (Some (JArr xs)) = True"
| "truthy (Some (JObj kvs)) = True"

text \<open>The elements a \<open>for ... of\<close> loop visits: those of an array, the
  characters of a string; any other value is not iterable.\<close>

fun iterate :: "json \<Rightarrow> error + json list" where
  "iterate (JArr xs) = Inr xs"
| "iterate (JStr s) = Inr (map (\<lambda>c. JStr [c]) s)"
| "iterate v = Inl (TypeError ''not iterable'')"

subsection \<open>\<open>JSON.stringify\<close> with an array replacer\<close>

definition hex_digit :: "nat \<Rightarrow> char" where
  "hex_digit n = (if n < 10 then char_of (48 + n) else char_of (87 + n))"

definition quote_char :: "char \<Rightarrow> string" where
  "quote_char c =
     (if c = CHR 0x22 then [CHR 0x5C, CHR 0x22]
      else if c = CHR 0x5C then [CHR 0x5C, CHR 0x5C]
      else if c = CHR 0x08 then [CHR 0x5C, CHR ''b'']
      else if c = CHR 0x0C then [CHR 0x5C, CHR ''f'']
      else if c = CHR 0x0A then [CHR 0x5C, CHR ''n'']
      else if c = CHR 0x0D then [CHR 0x5C, CHR ''r'']
      else if c = CHR 0x09 then [CHR 0x5C, CHR ''t'']
      else if (of_char c :: nat) < 32
        then [CHR 0x5C, CHR ''u'', CHR ''0'', CHR ''0'',
              hex_digit (of_char c div 16), hex_digit (of_char c mod 16)]
      else [c])"

definition QuoteJSONString :: "string \<Rightarrow> string" where
  "QuoteJSONString s = CHR 0x22 # concat (map quote_char s) @ [CHR 0x22]"

fun join_comma :: "string list \<Rightarrow> string" where
  "join_comma [] = []"
| "join_comma [x] = x"
| "join_comma (x # y # ys) = x @ '','' @ join_comma (y # ys)"

text \<open>
  \<open>SerializeJSONProperty\<close> of ECMAScript with a property list \<open>K\<close>: when the
  replacer is an array, \<^emph>\<open>every\<close> object, at every depth, is serialised
  by walking \<open>K\<close> in order and emitting the properties of the object that are
  named in \<open>K\<close>. Arrays are serialised element by element. \<open>num\<close> is
  \<open>Number::toString\<close>.
\<close>

fun SerializeJSONProperty :: "(rat \<Rightarrow> string) \<Rightarrow> string list \<Rightarrow> json \<Rightarrow> string"
  and SerializeMember ::
    "(rat \<Rightarrow> string) \<Rightarrow> string list \<Rightarrow> (string \<times> json) list \<Rightarrow> string \<Rightarrow> string option"
where
  "SerializeJSONProperty num K JNull = ''null''"
| "SerializeJSONProperty num K (JBool b) = (if b then ''true'' else ''false'')"
| "SerializeJSONProperty num K (JNum n) = num n"
| "SerializeJSONProperty num K (JStr s) = QuoteJSONString s"
| "SerializeJSONProperty num K (JArr xs) =
     ''['' @ join_comma (map (SerializeJSONProperty num K) xs) @ '']''"
| "SerializeJSONProperty num K (JObj kvs) =
     ''{'' @ join_comma (List.map_filter (SerializeMember num K kvs) K) @ ''}''"
| "SerializeMember num K [] P = None"
| "SerializeMember num K ((k, v) # kvs) P =
     (if P = k then Some (QuoteJSONString P @ '':'' @ SerializeJSONProperty num K v)
      else SerializeMember num K kvs P)"

text \<open>\<open>JSON.stringify(v, replacer)\<close> for an array \<open>replacer\<close> of strings:
  the property list is the replacer without repetitions.\<close>

definition JSON_stringify :: "(rat \<Rightarrow> string) \<Rightarrow> json \<Rightarrow> string list \<Rightarrow> string" where
  "JSON_stringify num v replacer = SerializeJSONProperty num (Array_from_Set replacer) v"

definition Object_keys :: "(string \<times> json) list \<Rightarrow> string list" where
  "Object_keys kvs = Array_from_Set (map fst kvs)"

subsection \<open>The runtime\<close>

text \<open>What \<open>new URL(s)\<close> exposes to this program: host name, path, query
  and the serialisation once the fragment has been cleared.\<close>

record url =
  hostname :: string
  pathname :: string
  search :: string
  without_hash :: string

text \<open>
  The functions the program calls and does not define:
  \<open>createHash('sha256').update(s).digest('hex')\<close>, \<open>Number::toString\<close>,
  \<open>new URL(s)\<close> (\<open>None\<close> when it throws) and
  \<open>micromatch.isMatch(path, globs, {bash: true})\<close>.
\<close>

record runtime =
  sha256_hex :: "string \<Rightarrow> string"
  Number_toString :: "rat \<Rightarrow> string"
  new_URL :: "string \<Rightarrow> url option"
  isMatch :: "string \<Rightarrow> string list \<Rightarrow> bool"

subsection \<open>Cache fingerprints (cli)\<close>

definition computeFileHash :: "runtime \<Rightarrow> string \<Rightarrow> string" where
  "computeFileHash R content = sha256_hex R content"

definition computeConfigHash :: "runtime \<Rightarrow> (string \<times> json) list \<Rightarrow> string" where
  "computeConfigHash R cfg =
     (let configStr = JSON_stringify (Number_toString R) (JObj cfg) (sort (Object_keys cfg))
      in sha256_hex R configStr)"

text \<open>The current fingerprint of the packaged test file: the empty string when
  the file does not exist, an exception when it cannot be read.\<close>

definition testFileHash :: "runtime \<Rightarrow> string file_state \<Rightarrow> error + string" where
  "testFileHash R testFile =
     (case testFile of
        NoFile \<Rightarrow> Inr []
      | Corrupt \<Rightarrow> Inl (Error ''cannot read test file'')
      | Holds content \<Rightarrow> Inr (computeFileHash R content))"

text \<open>\<open>stored.p === s\<close> for a string \<open>s\<close>.\<close>

definition strict_eq_string :: "json option \<Rightarrow> string \<Rightarrow> bool" where
  "strict_eq_string v s = (v = Some (JStr s))"

definition isCacheValid ::
  "runtime \<Rightarrow> json file_state \<Rightarrow> string file_state \<Rightarrow> (string \<times> json) list \<Rightarrow> bool" where
  "isCacheValid R hashFile testFile cfg =
     (case hashFile of
        NoFile \<Rightarrow> False
      | Corrupt \<Rightarrow> False
      | Holds stored \<Rightarrow>
          (case testFileHash R testFile of
             Inl e \<Rightarrow> False
           | Inr currentTestFile \<Rightarrow>
               (case Get stored ''timestamp'' of
                  Inl e \<Rightarrow> False
                | Inr ts \<Rightarrow>
                    (case (Get stored ''config'', Get stored ''testFile'') of
                       (Inr c, Inr t) \<Rightarrow>
                         strict_eq_string c (computeConfigHash R cfg) \<and>
                         strict_eq_string t currentTestFile
                     | _ \<Rightarrow> False))))"

text \<open>The object \<open>saveCacheHashes\<close> writes; \<open>None\<close> when the test file
  cannot be read and the function throws.\<close>

definition saveCacheHashes ::
  "runtime \<Rightarrow> string file_state \<Rightarrow> (string \<times> json) list \<Rightarrow> string \<Rightarrow> error + json" where
  "saveCacheHashes R testFile cfg timestamp =
     (case testFileHash R testFile of
        Inl e \<Rightarrow> Inl e
      | Inr h \<Rightarrow>
          Inr (JObj [(''config'', JStr (computeConfigHash R cfg)),
                     (''testFile'', JStr h),
                     (''timestamp'', JStr timestamp)]))"

text \<open>
  The specification's notion of a canonical form, used to state when two
  configuration objects have the same structured content: the keys of every
  object sorted, recursively.
\<close>

fun canonicalize :: "json \<Rightarrow> json" where
  "canonicalize (JArr xs) = JArr (map canonicalize xs)"
| "canonicalize (JObj kvs) = JObj (sort_key fst (map (\<lambda>(k, v). (k, canonicalize v)) kvs))"
| "canonicalize v = v"

subsection \<open>Configuration (config.ts)\<close>

text \<open>The interface \<open>VRTConfig\<close>. A property that is absent from the object
  (\<open>undefined\<close>) is \<open>None\<close>. Counts and pixel sizes are integers, the pixel
  ratio is a rational. The field \<open>include\<close> is called \<open>include_globs\<close> here.\<close>

record crawlOptions =
  maxDepth :: "int option"
  removeTrailingSlash :: "bool option"

record viewport =
  name :: string
  width :: int
  height :: int

record threshold =
  maxDiffPixels :: "int option"
  maxDiffPixelRatio :: "rat option"

record VRTConfig =
  referenceUrl :: "string option"
  testUrl :: "string option"
  sitemapPath :: "string option"
  maxUrls :: "int option"
  exclude :: "string list option"
  include_globs :: "string list option"
  crawlOptions :: "crawlOptions option"
  viewports :: "viewport list option"
  threshold :: "threshold option"

definition DEFAULT_CONFIG :: VRTConfig where
  "DEFAULT_CONFIG =
     \<lparr> referenceUrl = None,
       testUrl = None,
       sitemapPath = Some ''/sitemap.xml'',
       maxUrls = Some 25,
       exclude = Some [],
       include_globs = Some [''*''],
       crawlOptions = Some \<lparr> maxDepth = Some 1, removeTrailingSlash = Some True \<rparr>,
       viewports = Some [\<lparr> name = ''desktop'', width = 1920, height = 1080 \<rparr>],
       threshold = Some \<lparr> maxDiffPixels = Some 100, maxDiffPixelRatio = Some (1 / 100) \<rparr> \<rparr>"

text \<open>One property of an object spread \<open>{...d, ...c}\<close>: the value of \<open>c\<close>
  when \<open>c\<close> has the property, that of \<open>d\<close> otherwise.\<close>

definition spread :: "'a option \<Rightarrow> 'a option \<Rightarrow> 'a option" where
  "spread d c = (case c of Some v \<Rightarrow> Some v | None \<Rightarrow> d)"

definition spread_crawlOptions :: "crawlOptions option \<Rightarrow> crawlOptions option \<Rightarrow> crawlOptions" where
  "spread_crawlOptions d c =
     \<lparr> maxDepth = spread (Option.bind d maxDepth) (Option.bind c maxDepth),
       removeTrailingSlash =
         spread (Option.bind d removeTrailingSlash) (Option.bind c removeTrailingSlash) \<rparr>"

definition spread_threshold :: "threshold option \<Rightarrow> threshold option \<Rightarrow> threshold" where
  "spread_threshold d c =
     \<lparr> maxDiffPixels = spread (Option.bind d maxDiffPixels) (Option.bind c maxDiffPixels),
       maxDiffPixelRatio =
         spread (Option.bind d maxDiffPixelRatio) (Option.bind c maxDiffPixelRatio) \<rparr>"

text \<open>\<open>loadConfig\<close>: the file's object merged over the defaults, the two
  nested option objects merged property by property. The argument is what
  \<open>Bun.file(configPath).json()\<close> yields.\<close>

definition loadConfig :: "VRTConfig file_state \<Rightarrow> error + VRTConfig" where
  "loadConfig file =
     (case file of
        NoFile \<Rightarrow> Inl (Error ''Config file not found'')
      | Corrupt \<Rightarrow> Inl (SyntaxError ''JSON Parse error'')
      | Holds cfg \<Rightarrow>
          Inr \<lparr> referenceUrl = spread (referenceUrl DEFAULT_CONFIG) (referenceUrl cfg),
                testUrl = spread (testUrl DEFAULT_CONFIG) (testUrl cfg),
                sitemapPath = spread (sitemapPath DEFAULT_CONFIG) (sitemapPath cfg),
                maxUrls = spread (maxUrls DEFAULT_CONFIG) (maxUrls cfg),
                exclude = spread (exclude DEFAULT_CONFIG) (exclude cfg),
                include_globs = spread (include_globs DEFAULT_CONFIG) (include_globs cfg),
                crawlOptions =
                  Some (spread_crawlOptions (crawlOptions DEFAULT_CONFIG) (crawlOptions cfg)),
                viewports =
                  (case viewports cfg of
                     Some vps \<Rightarrow> Some vps
                   | None \<Rightarrow> viewports DEFAULT_CONFIG),
                threshold =
                  Some (spread_threshold (threshold DEFAULT_CONFIG) (threshold cfg)) \<rparr>)"

definition invalid_viewport :: "viewport \<Rightarrow> bool" where
  "invalid_viewport vp = (name vp = [] \<or> width vp \<le> 0 \<or> height vp \<le> 0)"

definition invalid_ratio :: "threshold option \<Rightarrow> bool" where
  "invalid_ratio th =
     (case th of
        None \<Rightarrow> False
      | Some t \<Rightarrow>
          (case maxDiffPixelRatio t of
             None \<Rightarrow> False
           | Some r \<Rightarrow> r \<noteq> 0 \<and> (r < 0 \<or> r > 1)))"

text \<open>\<open>validateConfig\<close>: the first check that fails throws. The message for
  an invalid viewport ends with the viewport printed as JSON, which is left
  out here.\<close>

definition validateConfig :: "runtime \<Rightarrow> VRTConfig \<Rightarrow> error + unit" where
  "validateConfig R cfg =
     (if \<not> truthy_str (testUrl cfg) then Inl (Error ''testUrl is required'')
      else if \<not> truthy_str (referenceUrl cfg) then Inl (Error ''referenceUrl is required'')
      else if Option.bind (referenceUrl cfg) (new_URL R) = None
              \<or> Option.bind (testUrl cfg) (new_URL R) = None
        then Inl (Error ''Invalid URL format in referenceUrl or testUrl'')
      else (case viewports cfg of
              None \<Rightarrow> Inl (Error ''At least one viewport must be defined'')
            | Some vps \<Rightarrow>
                if vps = [] then Inl (Error ''At least one viewport must be defined'')
                else if list_ex invalid_viewport vps
                  then Inl (Error ''Invalid viewport configuration: '')
                else if invalid_ratio (threshold cfg)
                  then Inl (Error ''maxDiffPixelRatio must be between 0 and 1'')
                else Inr ()))"

text \<open>The object a configuration record denotes, as \<open>computeConfigHash\<close> and
  \<open>JSON.stringify\<close> see it: one property for each field that is defined.\<close>

definition opt_prop :: "string \<Rightarrow> ('a \<Rightarrow> json) \<Rightarrow> 'a option \<Rightarrow> (string \<times> json) list" where
  "opt_prop k f v = (case v of None \<Rightarrow> [] | Some x \<Rightarrow> [(k, f x)])"

definition JInt :: "int \<Rightarrow> json" where
  "JInt n = JNum (of_int n)"

definition strings_json :: "string list \<Rightarrow> json" where
  "strings_json xs = JArr (map JStr xs)"

definition crawlOptions_json :: "crawlOptions \<Rightarrow> json" where
  "crawlOptions_json c =
     JObj (opt_prop ''maxDepth'' JInt (maxDepth c)
           @ opt_prop ''removeTrailingSlash'' JBool (removeTrailingSlash c))"

definition viewport_json :: "viewport \<Rightarrow> json" where
  "viewport_json vp =
     JObj [(''name'', JStr (name vp)), (''width'', JInt (width vp)), (''height'', JInt (height vp))]"

definition threshold_json :: "threshold \<Rightarrow> json" where
  "threshold_json t =
     JObj (opt_prop ''maxDiffPixels'' JInt (maxDiffPixels t)
           @ opt_prop ''maxDiffPixelRatio'' JNum (maxDiffPixelRatio t))"

definition config_object :: "VRTConfig \<Rightarrow> (string \<times> json) list" where
  "config_object cfg =
     opt_prop ''sitemapPath'' JStr (sitemapPath cfg)
     @ opt_prop ''maxUrls'' JInt (maxUrls cfg)
     @ opt_prop ''exclude'' strings_json (exclude cfg)
     @ opt_prop ''include'' strings_json (include_globs cfg)
     @ opt_prop ''crawlOptions'' crawlOptions_json (crawlOptions cfg)
     @ opt_prop ''viewports'' (\<lambda>vps. JArr (map viewport_json vps)) (viewports cfg)
     @ opt_prop ''threshold'' threshold_json (threshold cfg)
     @ opt_prop ''testUrl'' JStr (testUrl cfg)
     @ opt_prop ''referenceUrl'' JStr (referenceUrl cfg)"

subsection \<open>URL discovery (collect)\<close>

datatype source = sitemap | crawl

record URLCollectionResult =
  urls :: "string list"
  source :: source
  total_urls :: nat
  filtered :: nat

text \<open>The headless browser of the crawl, as the calls of one crawl see it:
  whether \<open>chromium.launch\<close>, \<open>browser.newPage\<close>, \<open>page.goto\<close> and
  \<open>browser.close\<close> succeed, what \<open>page.url()\<close> returns and the anchors
  \<open>page.evaluate\<close> returns (\<open>None\<close> when it throws).\<close>

record browser =
  launch_ok :: bool
  newPage_ok :: bool
  goto_ok :: bool
  page_url :: string
  page_links :: "string list option"
  close_ok :: bool

text \<open>The web as one discovery sees it: the outcome of resolving and fetching
  the sitemap (\<open>Inl\<close> for a network error or timeout) and the browser.\<close>

record web =
  sitemap_fetch :: "error + string list"
  chromium :: browser

definition collectFromSitemap :: "error + string list \<Rightarrow> error + string list" where
  "collectFromSitemap fetched =
     (case fetched of
        Inl e \<Rightarrow> Inl e
      | Inr sites \<Rightarrow> if sites = [] then Inl (Error ''No URLs found in sitemap'') else Inr sites)"

text \<open>The body of the loop over the anchors: a link that does not parse is
  skipped, a link of another host is ignored.\<close>

definition add_link ::
  "runtime \<Rightarrow> string \<Rightarrow> url \<Rightarrow> crawlOptions option \<Rightarrow> string list \<Rightarrow> string \<Rightarrow> string list" where
  "add_link R baseUrl baseUrlObj options found link =
     (case new_URL R link of
        None \<Rightarrow> found
      | Some linkUrl \<Rightarrow>
          if hostname linkUrl = hostname baseUrlObj then
            (let normalizedUrl = without_hash linkUrl in
             if Option.bind options removeTrailingSlash = Some True then
               (let cleanUrl =
                      (if endsWith normalizedUrl ''/'' \<and> normalizedUrl \<noteq> baseUrl @ ''/''
                       then butlast normalizedUrl else normalizedUrl)
                in Set_add found cleanUrl)
             else Set_add found normalizedUrl)
          else found)"

text \<open>\<open>crawlWebsite\<close>: launching the browser, opening the page and parsing
  the base URL happen before the \<open>try\<close>; the \<open>catch\<close> adds the base URL;
  \<open>browser.close\<close> runs in the \<open>finally\<close>.\<close>

definition crawlWebsite ::
  "runtime \<Rightarrow> browser \<Rightarrow> string \<Rightarrow> crawlOptions option \<Rightarrow> error + string list" where
  "crawlWebsite R B baseUrl options =
     (if \<not> launch_ok B then Inl (Error ''browser launch failed'')
      else if \<not> newPage_ok B then Inl (Error ''browser page failed'')
      else (case new_URL R baseUrl of
              None \<Rightarrow> Inl (TypeError ''Invalid URL'')
            | Some baseUrlObj \<Rightarrow>
                (let found =
                   (if \<not> goto_ok B then Set_add [] baseUrl
                    else (case page_links B of
                            None \<Rightarrow> Set_add (Set_add [] (page_url B)) baseUrl
                          | Some links \<Rightarrow>
                              foldl (add_link R baseUrl baseUrlObj options)
                                (Set_add [] (page_url B)) links))
                 in if close_ok B then Inr found else Inl (Error ''browser close failed''))))"

text \<open>The callback of \<open>urls.filter\<close>: whether a URL is kept, or the
  exception of \<open>new URL\<close>.\<close>

definition keep_url :: "runtime \<Rightarrow> string \<Rightarrow> string list \<Rightarrow> string list \<Rightarrow> string \<Rightarrow> error + bool" where
  "keep_url R baseUrl incl excl u =
     (case new_URL R u of
        None \<Rightarrow> Inl (TypeError ''Invalid URL'')
      | Some urlObj \<Rightarrow>
          (let path = pathname urlObj @ search urlObj in
           case new_URL R baseUrl of
             None \<Rightarrow> Inl (TypeError ''Invalid URL'')
           | Some baseObj \<Rightarrow>
               if hostname urlObj \<noteq> hostname baseObj then Inr False
               else if excl \<noteq> [] \<and> isMatch R path excl then Inr False
               else if incl \<noteq> [] then Inr (isMatch R path incl)
               else Inr True))"

fun filterURLs ::
  "runtime \<Rightarrow> string list \<Rightarrow> string \<Rightarrow> string list \<Rightarrow> string list \<Rightarrow> error + string list" where
  "filterURLs R [] baseUrl incl excl = Inr []"
| "filterURLs R (u # us) baseUrl incl excl =
     (case keep_url R baseUrl incl excl u of
        Inl e \<Rightarrow> Inl e
      | Inr keep \<Rightarrow>
          (case filterURLs R us baseUrl incl excl of
             Inl e \<Rightarrow> Inl e
           | Inr kept \<Rightarrow> Inr (if keep then u # kept else kept)))"

text \<open>The \<open>try\<close>/\<open>catch\<close> at the head of \<open>collectURLs\<close>: the sitemap, and
  the crawl when the sitemap throws.\<close>

definition discover :: "runtime \<Rightarrow> web \<Rightarrow> VRTConfig \<Rightarrow> string \<Rightarrow> error + string list \<times> source" where
  "discover R W cfg baseUrl =
     (case collectFromSitemap (sitemap_fetch W) of
        Inr sites \<Rightarrow> Inr (sites, sitemap)
      | Inl e \<Rightarrow>
          (case crawlWebsite R (chromium W) baseUrl (crawlOptions cfg) of
             Inl e' \<Rightarrow> Inl e'
           | Inr found \<Rightarrow> Inr (found, crawl)))"

definition collectURLs :: "runtime \<Rightarrow> web \<Rightarrow> VRTConfig \<Rightarrow> error + URLCollectionResult" where
  "collectURLs R W cfg =
     (case referenceUrl cfg of
        None \<Rightarrow> Inl (TypeError ''Invalid URL'')
      | Some baseUrl \<Rightarrow>
          (case discover R W cfg baseUrl of
             Inl e \<Rightarrow> Inl e
           | Inr (found, src) \<Rightarrow>
               (case filterURLs R found baseUrl
                       (case include_globs cfg of None \<Rightarrow> [''*''] | Some i \<Rightarrow> i)
                       (case exclude cfg of None \<Rightarrow> [] | Some x \<Rightarrow> x) of
                  Inl e \<Rightarrow> Inl e
                | Inr kept \<Rightarrow>
                    (let unique = Array_from_Set kept;
                         limit = (case maxUrls cfg of
                                    None \<Rightarrow> 25
                                  | Some n \<Rightarrow> if n = 0 then 25 else n)
                     in Inr \<lparr> urls = slice0 unique limit,
                              source = src,
                              total_urls = length found,
                              filtered = length unique \<rparr>))))"

text \<open>
  Modelled from the spec: the glob matcher \<open>micromatch.isMatch\<close> is a
  third-party package and not among the sources. The specification says of
  the include list that its default (the single pattern \<open>*\<close>, matched with
  the option \<open>bash\<close>) is match-all; so \<open>*\<close> stands for any run of
  characters, the slash included, every other character stands for itself,
  and a path matches a list of globs when it matches one of them.
\<close>

fun glob_match :: "string \<Rightarrow> string \<Rightarrow> bool" where
  "glob_match [] [] = True"
| "glob_match [] (c # cs) = False"
| "glob_match (p # ps) [] = (p = CHR ''*'' \<and> glob_match ps [])"
| "glob_match (p # ps) (c # cs) =
     (if p = CHR ''*'' then glob_match ps (c # cs) \<or> glob_match (p # ps) cs
      else p = c \<and> glob_match ps cs)"

definition glob_isMatch :: "string \<Rightarrow> string list \<Rightarrow> bool" where
  "glob_isMatch path globs = list_ex (\<lambda>g. glob_match g path) globs"

subsection \<open>The runner\<close>

record TestResults =
  passed :: nat
  failed :: nat
  total_tests :: nat
  exitCode :: nat

datatype dirent = File string | Directory string "dirent list"

fun hasSnapshotFiles :: "dirent list \<Rightarrow> bool" where
  "hasSnapshotFiles [] = False"
| "hasSnapshotFiles (Directory n entries # rest) =
     (if hasSnapshotFiles entries then True else hasSnapshotFiles rest)"
| "hasSnapshotFiles (File n # rest) =
     (if endsWith n ''.png'' then True else hasSnapshotFiles rest)"

text \<open>The argument is the listing of the snapshot directory, \<open>None\<close> when the
  directory does not exist.\<close>

definition hasExistingSnapshots :: "dirent list option \<Rightarrow> bool" where
  "hasExistingSnapshots snapshotDir =
     (case snapshotDir of None \<Rightarrow> False | Some entries \<Rightarrow> hasSnapshotFiles entries)"

text \<open>One run of the capture engine as a child process: it cannot be started,
  or it closes with a code (\<open>None\<close> when a signal ended it).\<close>

datatype spawn_result = SpawnError string | Closed "nat option"

definition runPlaywright :: "bool \<Rightarrow> spawn_result \<Rightarrow> error + nat" where
  "runPlaywright updateSnapshots proc =
     (case proc of
        SpawnError m \<Rightarrow> Inl (Error (''Failed to run Playwright: '' @ m))
      | Closed code \<Rightarrow>
          (let exitCode = (case code of None \<Rightarrow> 0 | Some c \<Rightarrow> c)
           in if updateSnapshots then Inr 0 else Inr exitCode))"

fun count_specs :: "json list \<Rightarrow> nat \<times> nat \<times> nat \<Rightarrow> error + nat \<times> nat \<times> nat" where
  "count_specs [] acc = Inr acc"
| "count_specs (spec # rest) (p, f, t) =
     (case Get spec ''ok'' of
        Inl e \<Rightarrow> Inl e
      | Inr ok \<Rightarrow>
          if truthy ok then count_specs rest (Suc p, f, Suc t)
          else count_specs rest (p, Suc f, Suc t))"

fun count_suites :: "json list \<Rightarrow> nat \<times> nat \<times> nat \<Rightarrow> error + nat \<times> nat \<times> nat" where
  "count_suites [] acc = Inr acc"
| "count_suites (suite # rest) acc =
     (case Get suite ''specs'' of
        Inl e \<Rightarrow> Inl e
      | Inr None \<Rightarrow> count_suites rest acc
      | Inr (Some specs) \<Rightarrow>
          if truthy (Some specs) then
            (case iterate specs of
               Inl e \<Rightarrow> Inl e
             | Inr xs \<Rightarrow>
                 (case count_specs xs acc of
                    Inl e \<Rightarrow> Inl e
                  | Inr acc' \<Rightarrow> count_suites rest acc'))
          else count_suites rest acc)"

text \<open>The \<open>try\<close> body of \<open>parseResults\<close>, on the parsed results file.\<close>

definition count_results :: "json \<Rightarrow> error + nat \<times> nat \<times> nat" where
  "count_results results =
     (case Get results ''suites'' of
        Inl e \<Rightarrow> Inl e
      | Inr None \<Rightarrow> Inr (0, 0, 0)
      | Inr (Some suites) \<Rightarrow>
          if truthy (Some suites) then
            (case iterate suites of
               Inl e \<Rightarrow> Inl e
             | Inr xs \<Rightarrow> count_suites xs (0, 0, 0))
          else Inr (0, 0, 0))"

definition parseResults :: "json file_state \<Rightarrow> TestResults" where
  "parseResults file =
     (case file of
        NoFile \<Rightarrow> \<lparr> passed = 0, failed = 0, total_tests = 0, exitCode = 1 \<rparr>
      | Corrupt \<Rightarrow> \<lparr> passed = 0, failed = 0, total_tests = 0, exitCode = 1 \<rparr>
      | Holds results \<Rightarrow>
          (case count_results results of
             Inl e \<Rightarrow> \<lparr> passed = 0, failed = 0, total_tests = 0, exitCode = 1 \<rparr>
           | Inr (p, f, t) \<Rightarrow> \<lparr> passed = p, failed = f, total_tests = t, exitCode = 0 \<rparr>))"

subsection \<open>The command line (cli)\<close>

text \<open>The result of \<open>parseInt\<close>.\<close>

datatype jsnum = NaN | Num int

text \<open>The interface \<open>CLIOptions\<close>; its fields carry the prefix \<open>arg\<close>.
  A flag that was not given is \<open>False\<close>.\<close>

record CLIOptions =
  arg_reference :: "string option"
  arg_test :: "string option"
  arg_config :: "string option"
  arg_output :: "string option"
  arg_maxUrls :: "jsnum option"
  arg_project :: "string option"
  arg_verbose :: bool
  arg_updateBaseline :: bool
  arg_headed :: bool

definition isWhiteSpace :: "char \<Rightarrow> bool" where
  "isWhiteSpace c = (c \<in> set [CHR '' '', CHR 0x09, CHR 0x0A, CHR 0x0B, CHR 0x0C, CHR 0x0D])"

definition isDigit :: "char \<Rightarrow> bool" where
  "isDigit c = (48 \<le> (of_char c :: nat) \<and> (of_char c :: nat) \<le> 57)"

definition digits_value :: "string \<Rightarrow> int" where
  "digits_value ds = foldl (\<lambda>a c. 10 * a + (int (of_char c) - 48)) 0 ds"

text \<open>\<open>parseInt(s, 10)\<close>: leading white space, a sign, then the longest run
  of decimal digits; \<open>NaN\<close> when there is none, and for \<open>undefined\<close>.\<close>

definition parseInt :: "string option \<Rightarrow> jsnum" where
  "parseInt arg =
     (case arg of
        None \<Rightarrow> NaN
      | Some s \<Rightarrow>
          (let t = dropWhile isWhiteSpace s;
               negative = (t \<noteq> [] \<and> hd t = CHR ''-'');
               u = (if t \<noteq> [] \<and> (hd t = CHR ''-'' \<or> hd t = CHR ''+'') then tl t else t);
               ds = takeWhile isDigit u
           in if ds = [] then NaN
              else Num (if negative then - digits_value ds else digits_value ds)))"

definition next_arg :: "string list \<Rightarrow> string option" where
  "next_arg rest = (case rest of [] \<Rightarrow> None | n # ns \<Rightarrow> Some n)"

text \<open>The loop of \<open>parseArgs\<close> over \<open>process.argv\<close> from index 2 on; \<open>Inl\<close>
  is the exit code of \<open>--clean\<close> and \<open>--help\<close>.\<close>

function parseArgs_loop :: "string list \<Rightarrow> CLIOptions \<Rightarrow> nat + CLIOptions" where
  "parseArgs_loop [] args = Inr args"
| "parseArgs_loop (arg # rest) args =
     (if arg = ''--reference''
        then parseArgs_loop (drop 1 rest) (args\<lparr>arg_reference := next_arg rest\<rparr>)
      else if arg = ''--test''
        then parseArgs_loop (drop 1 rest) (args\<lparr>arg_test := next_arg rest\<rparr>)
      else if arg = ''--config''
        then parseArgs_loop (drop 1 rest) (args\<lparr>arg_config := next_arg rest\<rparr>)
      else if arg = ''--output''
        then parseArgs_loop (drop 1 rest) (args\<lparr>arg_output := next_arg rest\<rparr>)
      else if arg = ''--max-urls''
        then parseArgs_loop (drop 1 rest) (args\<lparr>arg_maxUrls := Some (parseInt (next_arg rest))\<rparr>)
      else if arg = ''--project''
        then parseArgs_loop (drop 1 rest) (args\<lparr>arg_project := next_arg rest\<rparr>)
      else if arg = ''--verbose'' then parseArgs_loop rest (args\<lparr>arg_verbose := True\<rparr>)
      else if arg = ''--headed'' then parseArgs_loop rest (args\<lparr>arg_headed := True\<rparr>)
      else if arg = ''--update-baseline''
        then parseArgs_loop rest (args\<lparr>arg_updateBaseline := True\<rparr>)
      else if arg = ''--clean'' then Inl 0
      else if arg = ''--help'' \<or> arg = ''-h'' then Inl 0
      else parseArgs_loop rest args)"
  by pat_completeness auto
termination
  by (relation "measure (\<lambda>(xs, args). length xs)") auto

definition parseArgs :: "string list \<Rightarrow> nat + CLIOptions" where
  "parseArgs argv2 =
     parseArgs_loop argv2
       \<lparr> arg_reference = None, arg_test = None, arg_config = Some [], arg_output = None,
         arg_maxUrls = None, arg_project = None, arg_verbose = False,
         arg_updateBaseline = False, arg_headed = False \<rparr>"

text \<open>What one invocation finds outside itself: the arguments after the
  program name, the configuration file, the cache manifest, the packaged test
  file, the persisted URL list, the listing of the snapshot directory, the web,
  the two runs of the capture engine, the results file the comparison run
  leaves behind, and the time.\<close>

record world =
  argv :: "string list"
  config_file :: "VRTConfig file_state"
  hash_file :: "json file_state"
  test_file :: "string file_state"
  urls_file :: "string list file_state"
  snapshot_dir :: "dirent list"
  the_web :: web
  baseline_run :: spawn_result
  test_run :: spawn_result
  results_file :: "json file_state"
  clock :: string

text \<open>What an invocation does that can be observed from outside: the two
  refusals, a discovery against the reference target, the two files it writes,
  a run of the capture engine (update mode or not, and the target), and the
  report of a caught exception.\<close>

datatype event =
    UsageError
  | BaselineAmbiguityError
  | CollectURLs "string option"
  | WriteUrlsFile "string list"
  | WriteHashFile json
  | RunPlaywright bool "string option"
  | ErrorMessage error

text \<open>Phase 2 of \<open>runVisualTests\<close>: the comparison run and the parsing of its
  results; the exit code of the engine overwrites the one of \<open>parseResults\<close>.\<close>

definition compare_phase :: "world \<Rightarrow> VRTConfig \<Rightarrow> event list \<times> (error + TestResults)" where
  "compare_phase W cfg =
     (case runPlaywright False (test_run W) of
        Inl e \<Rightarrow> ([RunPlaywright False (testUrl cfg)], Inl e)
      | Inr code \<Rightarrow>
          ([RunPlaywright False (testUrl cfg)],
           Inr ((parseResults (results_file W))\<lparr>exitCode := code\<rparr>)))"

definition runVisualTests ::
  "world \<Rightarrow> VRTConfig \<Rightarrow> bool \<Rightarrow> event list \<times> (error + TestResults)" where
  "runVisualTests W cfg updateBaseline =
     (let hasBaseline = (\<not> updateBaseline \<and> hasExistingSnapshots (Some (snapshot_dir W)))
      in if hasBaseline then compare_phase W cfg
         else (case runPlaywright True (baseline_run W) of
                 Inl e \<Rightarrow> ([RunPlaywright True (referenceUrl cfg)], Inl e)
               | Inr code \<Rightarrow>
                   (case compare_phase W cfg of
                      (evs, r) \<Rightarrow> (RunPlaywright True (referenceUrl cfg) # evs, r))))"

definition truthy_num :: "jsnum option \<Rightarrow> bool" where
  "truthy_num n = (case n of Some (Num k) \<Rightarrow> k \<noteq> 0 | _ \<Rightarrow> False)"

text \<open>The head of the \<open>try\<close> block of \<open>main\<close>: the configuration from the
  file or the defaults, the overrides of the command line, the implicit
  reference, and the validation. The result is the effective configuration
  and \<open>hasExplicitReference\<close>.\<close>

definition resolveConfig :: "runtime \<Rightarrow> world \<Rightarrow> CLIOptions \<Rightarrow> error + VRTConfig \<times> bool" where
  "resolveConfig R W args =
     (case (if truthy_str (arg_config args) then loadConfig (config_file W)
            else Inr DEFAULT_CONFIG) of
        Inl e \<Rightarrow> Inl e
      | Inr c0 \<Rightarrow>
          (let c1 = (if truthy_str (arg_test args) then c0\<lparr>testUrl := arg_test args\<rparr> else c0);
               c2 = (if truthy_str (arg_reference args)
                     then c1\<lparr>referenceUrl := arg_reference args\<rparr> else c1);
               implicit = (\<not> truthy_str (referenceUrl c2) \<and> truthy_str (testUrl c2));
               c3 = (if implicit then c2\<lparr>referenceUrl := testUrl c2\<rparr> else c2);
               c4 = (if truthy_num (arg_maxUrls args)
                     then (case arg_maxUrls args of
                             Some (Num k) \<Rightarrow> c3\<lparr>maxUrls := Some k\<rparr>
                           | _ \<Rightarrow> c3)
                     else c3)
           in case validateConfig R c4 of
                Inl e \<Rightarrow> Inl e
              | Inr ok \<Rightarrow> Inr (c4, \<not> implicit)))"

text \<open>The URL list of the run: the persisted one when it exists and nothing
  is to be regenerated, a fresh discovery otherwise, which also writes the URL
  list and the cache manifest.\<close>

definition obtain_urls ::
  "runtime \<Rightarrow> world \<Rightarrow> VRTConfig \<Rightarrow> bool \<Rightarrow> event list \<times> (error + string list)" where
  "obtain_urls R W cfg shouldRegenerate =
     (if urls_file W \<noteq> NoFile \<and> \<not> shouldRegenerate then
        (case urls_file W of
           Holds cached \<Rightarrow> ([], Inr cached)
         | _ \<Rightarrow> ([], Inl (SyntaxError ''JSON Parse error'')))
      else
        (case collectURLs R (the_web W) cfg of
           Inl e \<Rightarrow> ([CollectURLs (referenceUrl cfg)], Inl e)
         | Inr urlResult \<Rightarrow>
             (case saveCacheHashes R (test_file W) (config_object cfg) (clock W) of
                Inl e \<Rightarrow>
                  ([CollectURLs (referenceUrl cfg), WriteUrlsFile (urls urlResult)], Inl e)
              | Inr hashes \<Rightarrow>
                  ([CollectURLs (referenceUrl cfg), WriteUrlsFile (urls urlResult),
                    WriteHashFile hashes],
                   Inr (urls urlResult)))))"

text \<open>The condition under which \<open>main\<close> refuses to run.\<close>

definition baseline_ambiguous :: "bool \<Rightarrow> bool \<Rightarrow> bool \<Rightarrow> bool" where
  "baseline_ambiguous hasExplicitReference cacheValid updateBaseline =
     (\<not> hasExplicitReference \<and> \<not> cacheValid \<and> \<not> updateBaseline)"

text \<open>What follows the refusal check in the \<open>try\<close> block.\<close>

definition after_gate ::
  "runtime \<Rightarrow> world \<Rightarrow> VRTConfig \<Rightarrow> bool \<Rightarrow> event list \<times> (error + nat)" where
  "after_gate R W cfg shouldRegenerate =
     (case obtain_urls R W cfg shouldRegenerate of
        (evs, Inl e) \<Rightarrow> (evs, Inl e)
      | (evs, Inr us) \<Rightarrow>
          if us = [] then (evs, Inl (Error ''No URLs found to test''))
          else (case runVisualTests W cfg shouldRegenerate of
                  (evs2, Inl e) \<Rightarrow> (evs @ evs2, Inl e)
                | (evs2, Inr results) \<Rightarrow>
                    (evs @ evs2, Inr (if failed results > 0 then 1 else 0))))"

definition main_try :: "runtime \<Rightarrow> world \<Rightarrow> CLIOptions \<Rightarrow> event list \<times> (error + nat)" where
  "main_try R W args =
     (case resolveConfig R W args of
        Inl e \<Rightarrow> ([], Inl e)
      | Inr (cfg, hasExplicitReference) \<Rightarrow>
          (let cacheValid = isCacheValid R (hash_file W) (test_file W) (config_object cfg);
               shouldRegenerate = (arg_updateBaseline args \<or> \<not> cacheValid)
           in if baseline_ambiguous hasExplicitReference cacheValid (arg_updateBaseline args)
              then ([BaselineAmbiguityError], Inr 2)
              else after_gate R W cfg shouldRegenerate))"

text \<open>\<open>main\<close>: the events of the invocation and the exit code of the process.\<close>

definition main :: "runtime \<Rightarrow> world \<Rightarrow> event list \<times> nat" where
  "main R W =
     (case parseArgs (argv W) of
        Inl code \<Rightarrow> ([], code)
      | Inr args \<Rightarrow>
          if \<not> truthy_str (arg_config args) \<and> \<not> truthy_str (arg_test args)
          then ([UsageError], 2)
          else (case main_try R W args of
                  (evs, Inl e) \<Rightarrow> (evs @ [ErrorMessage e], 2)
                | (evs, Inr code) \<Rightarrow> (evs, code)))"

subsection \<open>The specification's words for deduplication\<close>

text \<open>Removing duplicates while keeping the first occurrence of each element
  and the order in which the elements are first seen: the head, then the
  first occurrences of the rest without the head.\<close>

fun first_occurrences :: "'a list \<Rightarrow> 'a list" where
  "first_occurrences [] = []"
| "first_occurrences (x # xs) = x # first_occurrences (filter (\<lambda>y. y \<noteq> x) xs)"

text \<open>Network or browser activity among the events.\<close>

fun contacts_outside :: "event \<Rightarrow> bool" where
  "contacts_outside (CollectURLs u) = True"
| "contacts_outside (RunPlaywright m u) = True"
| "contacts_outside e = False"

subsection \<open>A runtime and inputs to run the model on\<close>

text \<open>
  A runtime for evaluating the model on concrete inputs. The hash is an
  injective stand-in for SHA-256 (it keeps its argument), numbers print in
  decimal (a fraction as numerator/denominator), URLs are of the form
  \<open>scheme://host/path?query#fragment\<close>, and globs are matched by
  \<open>glob_isMatch\<close>.
\<close>

fun show_nat :: "nat \<Rightarrow> string" where
  "show_nat n =
     (if n < 10 then [char_of (48 + n)]
      else show_nat (n div 10) @ [char_of (48 + n mod 10)])"

definition show_int :: "int \<Rightarrow> string" where
  "show_int i = (if i < 0 then CHR ''-'' # show_nat (nat (- i)) else show_nat (nat i))"

definition show_rat :: "rat \<Rightarrow> string" where
  "show_rat r =
     (case quotient_of r of
        (n, d) \<Rightarrow> if d = 1 then show_int n else show_int n @ ''/'' @ show_int d)"

fun split_scheme :: "string \<Rightarrow> string \<Rightarrow> (string \<times> string) option" where
  "split_scheme acc [] = None"
| "split_scheme acc (c # cs) =
     (if take 3 (c # cs) = ''://'' then Some (acc, drop 3 (c # cs))
      else split_scheme (acc @ [c]) cs)"

definition sample_URL :: "string \<Rightarrow> url option" where
  "sample_URL s =
     (case split_scheme [] s of
        None \<Rightarrow> None
      | Some (scheme, rest) \<Rightarrow>
          (let host = takeWhile (\<lambda>c. c \<notin> set ''/?#'') rest;
               r1 = dropWhile (\<lambda>c. c \<notin> set ''/?#'') rest;
               p = takeWhile (\<lambda>c. c \<notin> set ''?#'') r1;
               r2 = dropWhile (\<lambda>c. c \<notin> set ''?#'') r1;
               q = takeWhile (\<lambda>c. c \<noteq> CHR ''#'') r2;
               path = (if p = [] then ''/'' else p);
               query = (if q = ''?'' then [] else q)
           in if scheme = [] \<or> host = [] then None
              else Some \<lparr> hostname = host, pathname = path, search = query,
                          without_hash = scheme @ ''://'' @ host @ path @ query \<rparr>))"

definition sample_runtime :: runtime where
  "sample_runtime =
     \<lparr> sha256_hex = (\<lambda>s. ''sha256:'' @ s),
       Number_toString = show_rat,
       new_URL = sample_URL,
       isMatch = glob_isMatch \<rparr>"

text \<open>The effective configuration of
  \<open>run --reference https://prod.example --test https://stage.example\<close>,
  and the same with three nested fields edited.\<close>

definition cfgA :: VRTConfig where
  "cfgA = DEFAULT_CONFIG\<lparr> referenceUrl := Some ''https://prod.example'',
                          testUrl := Some ''https://stage.example'' \<rparr>"

definition cfgB :: VRTConfig where
  "cfgB = cfgA\<lparr> crawlOptions := Some \<lparr> maxDepth = Some 3, removeTrailingSlash = Some True \<rparr>,
                viewports := Some [\<lparr> name = ''desktop'', width = 1280, height = 720 \<rparr>],
                threshold := Some \<lparr> maxDiffPixels = Some 5000,
                                     maxDiffPixelRatio = Some (1 / 2) \<rparr> \<rparr>"

definition cfg_limit2 :: VRTConfig where
  "cfg_limit2 = cfgA\<lparr> maxUrls := Some 2 \<rparr>"

definition cfg_limit0 :: VRTConfig where
  "cfg_limit0 = cfgA\<lparr> maxUrls := Some 0 \<rparr>"

definition cfg_limit_negative :: VRTConfig where
  "cfg_limit_negative = cfgA\<lparr> maxUrls := Some (- 1) \<rparr>"

definition good_browser :: browser where
  "good_browser =
     \<lparr> launch_ok = True, newPage_ok = True, goto_ok = True,
       page_url = ''https://prod.example/'',
       page_links = Some [''https://prod.example/about#team'', ''https://other.example/''],
       close_ok = True \<rparr>"

definition prod_sitemap :: "string list" where
  "prod_sitemap = [''https://prod.example/'', ''https://prod.example/admin/users'',
                   ''https://prod.example/about'', ''https://prod.example/'']"

definition prod_url :: url where
  "prod_url = \<lparr> hostname = ''prod.example'', pathname = ''/'', search = [],
                 without_hash = ''https://prod.example/'' \<rparr>"

definition admin_url :: url where
  "admin_url = \<lparr> hostname = ''prod.example'', pathname = ''/admin/users'', search = [],
                  without_hash = ''https://prod.example/admin/users'' \<rparr>"

definition sample_web :: web where
  "sample_web = \<lparr> sitemap_fetch = Inr prod_sitemap, chromium = good_browser \<rparr>"

definition sample_results :: json where
  "sample_results =
     JObj [(''suites'',
            JArr [JObj [(''specs'', JArr [JObj [(''ok'', JBool True)],
                                          JObj [(''ok'', JBool True)]])]])]"

text \<open>A first run that names its reference (nothing is cached), and the run
  that follows it unchanged: manifest, URL list and a baseline image exist.\<close>

definition first_run :: world where
  "first_run =
     \<lparr> argv = [''run'', ''--reference'', ''https://prod.example'',
               ''--test'', ''https://stage.example''],
       config_file = NoFile,
       hash_file = NoFile,
       test_file = Holds ''test body'',
       urls_file = NoFile,
       snapshot_dir = [],
       the_web = sample_web,
       baseline_run = Closed (Some 0),
       test_run = Closed (Some 0),
       results_file = Holds sample_results,
       clock = ''2025-01-01T00:00:00.000Z'' \<rparr>"

definition sample_manifest :: json where
  "sample_manifest =
     JObj [(''config'', JStr (computeConfigHash sample_runtime (config_object cfgA))),
           (''testFile'', JStr (computeFileHash sample_runtime ''test body'')),
           (''timestamp'', JStr ''2025-01-01T00:00:00.000Z'')]"

definition second_run :: world where
  "second_run =
     first_run\<lparr> hash_file := Holds sample_manifest,
                 urls_file := Holds [''https://prod.example/'', ''https://prod.example/about''],
                 snapshot_dir :=
                   [File ''urls.json'', File ''.cache-hash.json'',
                    Directory ''vrt.spec.js-snapshots'' [File ''VRT-1-desktop-linux.png'']] \<rparr>"

text \<open>The same JSON value with the properties of every object in reverse order.\<close>

fun reverse_keys :: "json \<Rightarrow> json" where
  "reverse_keys (JArr xs) = JArr (map reverse_keys xs)"
| "reverse_keys (JObj kvs) = JObj (rev (map (\<lambda>(k, v). (k, reverse_keys v)) kvs))"
| "reverse_keys v = v"

definition cfgA_reversed :: "(string \<times> json) list" where
  "cfgA_reversed = rev (map (\<lambda>(k, v). (k, reverse_keys v)) (config_object cfgA))"

text \<open>The options \<open>parseArgs\<close> yields for the first run.\<close>

definition explicit_args :: CLIOptions where
  "explicit_args =
     \<lparr> arg_reference = Some ''https://prod.example'', arg_test = Some ''https://stage.example'',
       arg_config = Some [], arg_output = None, arg_maxUrls = None, arg_project = None,
       arg_verbose = False, arg_updateBaseline = False, arg_headed = False \<rparr>"

text \<open>A first run that names only the test target:
  \<open>run --test https://stage.example\<close>, its options and its effective
  configuration.\<close>

definition implicit_first_run :: world where
  "implicit_first_run = first_run\<lparr> argv := [''run'', ''--test'', ''https://stage.example''] \<rparr>"

definition implicit_args :: CLIOptions where
  "implicit_args = explicit_args\<lparr> arg_reference := None \<rparr>"

definition cfg_implicit :: VRTConfig where
  "cfg_implicit = DEFAULT_CONFIG\<lparr> referenceUrl := Some ''https://stage.example'',
                                  testUrl := Some ''https://stage.example'' \<rparr>"

text \<open>The second run when the snapshot directory holds the URL list and the
  manifest but no image; when the URL list is missing; and when the
  comparison run ends with code 1 and leaves no results file.\<close>

definition urls_lost_run :: world where
  "urls_lost_run = second_run\<lparr> urls_file := NoFile \<rparr>"

definition images_lost_run :: world where
  "images_lost_run =
     second_run\<lparr> snapshot_dir := [File ''urls.json'', File ''.cache-hash.json''] \<rparr>"

definition results_lost_run :: world where
  "results_lost_run = second_run\<lparr> results_file := NoFile, test_run := Closed (Some 1) \<rparr>"

text \<open>The second run when the configuration now comes from a file whose
  nested fields are those of \<open>cfgB\<close>, the manifest being the one written for
  \<open>cfgA\<close>.\<close>

definition edited_file :: VRTConfig where
  "edited_file =
     \<lparr> referenceUrl = Some ''https://prod.example'',
       testUrl = Some ''https://stage.example'',
       sitemapPath = None, maxUrls = None, exclude = None, include_globs = None,
       crawlOptions = Some \<lparr> maxDepth = Some 3, removeTrailingSlash = None \<rparr>,
       viewports = Some [\<lparr> name = ''desktop'', width = 1280, height = 720 \<rparr>],
       threshold = Some \<lparr> maxDiffPixels = Some 5000, maxDiffPixelRatio = Some (1 / 2) \<rparr> \<rparr>"

definition edited_args :: CLIOptions where
  "edited_args =
     \<lparr> arg_reference = None, arg_test = None, arg_config = Some ''vrt.config.json'',
       arg_output = None, arg_maxUrls = None, arg_project = None,
       arg_verbose = False, arg_updateBaseline = False, arg_headed = False \<rparr>"

definition edited_run :: world where
  "edited_run =
     second_run\<lparr> argv := [''run'', ''--config'', ''vrt.config.json''],
                  config_file := Holds edited_file \<rparr>"





section \<open>Properties\<close>

subsection \<open>Sets as lists, slices\<close>

lemma foldl_Set_add:
  "foldl Set_add acc xs = acc @ first_occurrences (filter (\<lambda>x. x \<notin> set acc) xs)"
proof (induction xs arbitrary: acc)
  case Nil
  show ?case by simp
next
  case (Cons x xs)
  have "filter (\<lambda>y. y \<notin> set (acc @ [x])) xs
        = filter (\<lambda>y. y \<noteq> x) (filter (\<lambda>y. y \<notin> set acc) xs)"
    by (induction xs) auto
  with Cons show ?case by simp
qed

lemma Array_from_Set_first_occurrences: "Array_from_Set xs = first_occurrences xs"
  by (simp add: Array_from_Set_def foldl_Set_add)

lemma set_first_occurrences: "set (first_occurrences xs) = set xs"
  by (induction xs rule: first_occurrences.induct) auto

lemma distinct_first_occurrences: "distinct (first_occurrences xs)"
  by (induction xs rule: first_occurrences.induct) (auto simp: set_first_occurrences)

lemma first_occurrences_distinct: "distinct xs \<Longrightarrow> first_occurrences xs = xs"
proof (induction xs)
  case Nil
  show ?case by simp
next
  case (Cons a xs)
  then have "filter (\<lambda>y. y \<noteq> a) xs = xs"
    by (intro filter_True) auto
  with Cons show ?case by simp
qed

lemma slice0_nonneg: "0 \<le> e \<Longrightarrow> slice0 xs e = take (nat e) xs"
  by (auto simp: slice0_def Let_def min_def)

subsection \<open>Serialisation and canonical forms\<close>

lemma map_of_insort_key: "map_of (insort_key fst (k, v) xs) = (map_of xs)(k \<mapsto> v)"
proof (induction xs)
  case Nil
  show ?case by simp
next
  case (Cons y ys)
  obtain ky vy where y: "y = (ky, vy)" by (cases y)
  show ?case
  proof (cases "k \<le> ky")
    case True
    then show ?thesis by (auto simp: y fun_eq_iff)
  next
    case False
    then have "k \<noteq> ky" by auto
    with False Cons show ?thesis by (auto simp: y fun_eq_iff)
  qed
qed

lemma map_of_sort_key: "map_of (sort_key fst xs) = map_of xs"
  by (induction xs) (auto simp: map_of_insort_key)

lemma map_fst_insort_key: "map fst (insort_key fst x xs) = insort (fst x) (map fst xs)"
  by (induction xs) auto

lemma map_fst_sort_key: "map fst (sort_key fst xs) = sort (map fst xs)"
  by (induction xs) (auto simp: map_fst_insort_key)

lemma SerializeMember_map_of:
  "SerializeMember num K kvs P =
     map_option (\<lambda>v. QuoteJSONString P @ '':'' @ SerializeJSONProperty num K v) (map_of kvs P)"
  by (induction kvs) auto

text \<open>Serialisation under a property list does not see the order of the
  properties of any object.\<close>

lemma Serialize_canonicalize:
  "SerializeJSONProperty num K (canonicalize v) = SerializeJSONProperty num K v"
proof (induction v)
  case (JArr xs)
  then show ?case by (simp cong: map_cong)
next
  case (JObj kvs)
  have "SerializeMember num K (sort_key fst (map (\<lambda>(k, v). (k, canonicalize v)) kvs)) P
        = SerializeMember num K kvs P" for P
  proof -
    have "map_of (map (\<lambda>(k, v). (k, canonicalize v)) kvs) P
          = map_option canonicalize (map_of kvs P)"
      by (induction kvs) auto
    moreover have "SerializeJSONProperty num K (canonicalize v) = SerializeJSONProperty num K v"
      if "map_of kvs P = Some v" for v
    proof -
      from that have "(P, v) \<in> set kvs" by (rule map_of_SomeD)
      then show ?thesis using JObj.IH by (auto simp: snds.simps)
    qed
    ultimately show ?thesis
      by (cases "map_of kvs P") (simp_all add: SerializeMember_map_of map_of_sort_key)
  qed
  then have "SerializeMember num K (sort_key fst (map (\<lambda>(k, v). (k, canonicalize v)) kvs))
        = SerializeMember num K kvs" by (rule ext)
  then show ?case by simp
qed simp_all

lemma sorted_keys: "Array_from_Set (sort (Array_from_Set xs)) = sorted_list_of_set (set xs)"
proof -
  have "sort (first_occurrences xs) = sorted_list_of_set (set xs)"
    using distinct_first_occurrences [of xs] set_first_occurrences [of xs]
    by (metis sorted_list_of_set_sort_remdups distinct_remdups_id)
  then show ?thesis
    by (simp add: Array_from_Set_first_occurrences first_occurrences_distinct)
qed

subsection \<open>Filtering and discovery\<close>

lemma filterURLs_Inr:
  "filterURLs R us baseUrl incl excl = Inr kept \<Longrightarrow>
     kept = filter (\<lambda>u. keep_url R baseUrl incl excl u = Inr True) us
     \<and> (\<forall>u \<in> set us. \<exists>b. keep_url R baseUrl incl excl u = Inr b)"
proof (induction us arbitrary: kept)
  case Nil
  then show ?case by simp
next
  case (Cons u us)
  from Cons.prems obtain b kept' where
    b: "keep_url R baseUrl incl excl u = Inr b" and
    k: "filterURLs R us baseUrl incl excl = Inr kept'" and
    r: "kept = (if b then u # kept' else kept')"
    by (auto split: sum.splits)
  from Cons.IH [OF k] b r show ?case by auto
qed


lemma collectURLs_Inr:
  assumes "collectURLs R W cfg = Inr r"
  obtains baseUrl found src kept where
    "referenceUrl cfg = Some baseUrl"
    "discover R W cfg baseUrl = Inr (found, src)"
    "filterURLs R found baseUrl
       (case include_globs cfg of None \<Rightarrow> [''*''] | Some i \<Rightarrow> i)
       (case exclude cfg of None \<Rightarrow> [] | Some x \<Rightarrow> x) = Inr kept"
    "r = \<lparr> urls = slice0 (Array_from_Set kept)
                    (case maxUrls cfg of None \<Rightarrow> 25 | Some n \<Rightarrow> if n = 0 then 25 else n),
           source = src, total_urls = length found,
           filtered = length (Array_from_Set kept) \<rparr>"
  using assms unfolding collectURLs_def
  by (auto split: option.splits sum.splits prod.splits simp: Let_def)




lemma glob_match_star: "glob_match ''*'' s"
  by (induction s) auto

lemma glob_isMatch_star: "glob_isMatch p [''*'']"
  by (simp add: glob_isMatch_def glob_match_star)

lemma glob_isMatch_Nil: "\<not> glob_isMatch p []"
  by (simp add: glob_isMatch_def)

subsection \<open>The events of a run\<close>

lemma compare_phase_events:
  "fst (compare_phase W cfg) = [RunPlaywright False (testUrl cfg)]"
  by (simp add: compare_phase_def split: sum.splits)

lemma runVisualTests_events:
  "set (fst (runVisualTests W cfg u))
     \<subseteq> {RunPlaywright True (referenceUrl cfg), RunPlaywright False (testUrl cfg)}"
  using compare_phase_events [of W cfg]
  by (auto simp: runVisualTests_def Let_def split: sum.splits prod.splits)

lemma obtain_urls_events:
  "BaselineAmbiguityError \<notin> set (fst (obtain_urls R W cfg s))"
  by (auto simp: obtain_urls_def split: file_state.splits sum.splits)

lemma after_gate_events:
  "BaselineAmbiguityError \<notin> set (fst (after_gate R W cfg s))"
proof -
  obtain evs r where o: "obtain_urls R W cfg s = (evs, r)"
    by (cases "obtain_urls R W cfg s")
  with obtain_urls_events [of R W cfg s] have e: "BaselineAmbiguityError \<notin> set evs" by simp
  obtain evs2 r2 where v: "runVisualTests W cfg s = (evs2, r2)"
    by (cases "runVisualTests W cfg s")
  with runVisualTests_events [of W cfg s] have e2: "BaselineAmbiguityError \<notin> set evs2" by auto
  from o v e e2 show ?thesis
    by (auto simp: after_gate_def split: sum.splits)
qed

text \<open>\<open>main\<close> once the arguments are parsed and the configuration is
  resolved: the refusal, or what follows it.\<close>

lemma main_steps:
  assumes "parseArgs (argv W) = Inr args"
    and "truthy_str (arg_config args) \<or> truthy_str (arg_test args)"
    and "resolveConfig R W args = Inr (cfg, hasExplicitReference)"
    and "cacheValid = isCacheValid R (hash_file W) (test_file W) (config_object cfg)"
  shows "main R W =
     (if baseline_ambiguous hasExplicitReference cacheValid (arg_updateBaseline args)
      then ([BaselineAmbiguityError], 2)
      else (case after_gate R W cfg (arg_updateBaseline args \<or> \<not> cacheValid) of
              (evs, Inl e) \<Rightarrow> (evs @ [ErrorMessage e], 2)
            | (evs, Inr code) \<Rightarrow> (evs, code)))"
  using assms by (auto simp: main_def main_try_def Let_def)

section \<open>The claims\<close>

subsection \<open>C1: the baseline policy gate\<close>

text \<open>
  Claim C1. Once the arguments are parsed and the configuration is resolved
  and valid, \<open>main\<close> refuses with the baseline-ambiguity message exactly when
  no reference was named, the cache is invalid and no update was forced. The
  refusal ends the process with exit code 2 and is the only event of the
  invocation: no discovery and no run of the capture engine comes before it.
  In every other combination of the three booleans \<open>main\<close> goes on with what
  follows the check, which never issues that refusal.
\<close>

theorem baseline_gate:
  assumes "parseArgs (argv W) = Inr args"
    and "truthy_str (arg_config args) \<or> truthy_str (arg_test args)"
    and "resolveConfig R W args = Inr (cfg, hasExplicitReference)"
    and "cacheValid = isCacheValid R (hash_file W) (test_file W) (config_object cfg)"
    and "forceUpdate = arg_updateBaseline args"
  shows "(BaselineAmbiguityError \<in> set (fst (main R W)))
           = (\<not> hasExplicitReference \<and> \<not> cacheValid \<and> \<not> forceUpdate)
       \<and> (\<not> hasExplicitReference \<and> \<not> cacheValid \<and> \<not> forceUpdate
            \<longrightarrow> main R W = ([BaselineAmbiguityError], 2)
                \<and> \<not> list_ex contacts_outside (fst (main R W)))
       \<and> (hasExplicitReference \<or> cacheValid \<or> forceUpdate
            \<longrightarrow> main R W =
                  (case after_gate R W cfg (forceUpdate \<or> \<not> cacheValid) of
                     (evs, Inl e) \<Rightarrow> (evs @ [ErrorMessage e], 2)
                   | (evs, Inr code) \<Rightarrow> (evs, code)))"
proof -
  note m = main_steps [OF assms(1-4)]
  obtain evs r where a: "after_gate R W cfg (forceUpdate \<or> \<not> cacheValid) = (evs, r)"
    by (cases "after_gate R W cfg (forceUpdate \<or> \<not> cacheValid)")
  with after_gate_events [of R W cfg "forceUpdate \<or> \<not> cacheValid"]
  have "BaselineAmbiguityError \<notin> set evs" by simp
  with m a assms(5) show ?thesis
    by (cases r) (auto simp: baseline_ambiguous_def)
qed

text \<open>The gate on \<open>run --test https://stage.example\<close> with nothing cached:
  the run is refused.\<close>

theorem baseline_gate_witness:
  "parseArgs (argv implicit_first_run) = Inr implicit_args
   \<and> resolveConfig sample_runtime implicit_first_run implicit_args = Inr (cfg_implicit, False)
   \<and> \<not> isCacheValid sample_runtime (hash_file implicit_first_run)
         (test_file implicit_first_run) (config_object cfg_implicit)
   \<and> \<not> arg_updateBaseline implicit_args
   \<and> main sample_runtime implicit_first_run = ([BaselineAmbiguityError], 2)"
proof -
  have h1: "parseArgs (argv implicit_first_run) = Inr implicit_args"
    by code_simp
  have h2: "truthy_str (arg_config implicit_args) \<or> truthy_str (arg_test implicit_args)"
    by code_simp
  have h3: "resolveConfig sample_runtime implicit_first_run implicit_args
            = Inr (cfg_implicit, False)"
    by code_simp
  have c: "\<not> isCacheValid sample_runtime (hash_file implicit_first_run)
               (test_file implicit_first_run) (config_object cfg_implicit)"
    by code_simp
  have f: "\<not> arg_updateBaseline implicit_args"
    by code_simp
  from baseline_gate [OF h1 h2 h3 refl refl] c f
  have "main sample_runtime implicit_first_run = ([BaselineAmbiguityError], 2)"
    by blast
  with h1 h3 c f show ?thesis by blast
qed

subsection \<open>C2: nested fields and the fingerprint\<close>

text \<open>
  Claim C2 says that two effective configurations that differ in any field,
  nested ones included, have different fingerprints, so that the cache is
  invalid after such an edit. The code does not do that: the sorted list of
  the top-level keys is the replacer of \<open>JSON.stringify\<close>, and an array
  replacer selects the properties of the nested objects as well, none of
  which is a top-level key. The two configurations \<open>cfgA\<close> and \<open>cfgB\<close>
  differ in \<open>crawlOptions.maxDepth\<close>, in the width and height of the viewport
  and in both thresholds; for every hash function and every printing of
  numbers their fingerprints are equal, and the manifest written for
  \<open>cfgA\<close> is valid for \<open>cfgB\<close>: the run \<open>edited_run\<close>, whose
  effective configuration is \<open>cfgB\<close>, regenerates nothing.
\<close>

theorem nested_edit_keeps_fingerprint:
  "canonicalize (JObj (config_object cfgA)) \<noteq> canonicalize (JObj (config_object cfgB))
   \<and> computeConfigHash R (config_object cfgA) = computeConfigHash R (config_object cfgB)
   \<and> isCacheValid R
        (Holds (JObj [(''config'', JStr (computeConfigHash R (config_object cfgA))),
                      (''testFile'', JStr (computeFileHash R body)),
                      (''timestamp'', JStr ts)]))
        (Holds body) (config_object cfgB)
   \<and> parseArgs (argv edited_run) = Inr edited_args
   \<and> resolveConfig sample_runtime edited_run edited_args = Inr (cfgB, True)
   \<and> hash_file edited_run = Holds sample_manifest
   \<and> main sample_runtime edited_run
       = ([RunPlaywright False (Some ''https://stage.example'')], 0)"
proof -
  have 1: "canonicalize (JObj (config_object cfgA)) \<noteq> canonicalize (JObj (config_object cfgB))"
    by code_simp
  have 2: "computeConfigHash R (config_object cfgA) = computeConfigHash R (config_object cfgB)"
    by code_simp
  have 3: "isCacheValid R
        (Holds (JObj [(''config'', JStr (computeConfigHash R (config_object cfgA))),
                      (''testFile'', JStr (computeFileHash R body)),
                      (''timestamp'', JStr ts)]))
        (Holds body) (config_object cfgB)"
    using 2 by (simp add: isCacheValid_def testFileHash_def strict_eq_string_def)
  have 4: "parseArgs (argv edited_run) = Inr edited_args"
    by code_simp
  have 5: "resolveConfig sample_runtime edited_run edited_args = Inr (cfgB, True)"
    by code_simp
  have 6: "hash_file edited_run = Holds sample_manifest"
    by code_simp
  have 7: "main sample_runtime edited_run
           = ([RunPlaywright False (Some ''https://stage.example'')], 0)"
    by code_simp
  from 1 2 3 4 5 6 7 show ?thesis by blast
qed

subsection \<open>C3: a valid cache\<close>

text \<open>
  Claim C3, amended. When no update is forced, the cache manifest is valid,
  the persisted URL list exists and parses, and the snapshot directory holds
  a baseline image, the run reuses the persisted URL list and the images:
  there is no discovery, no baseline capture and nothing is written; with a
  non-empty URL list the only event is the comparison run against the test
  target (followed by the report of its error when the engine cannot be
  started), and with an empty one the run fails before any engine run.
\<close>

theorem valid_cache_reuses_everything:
  assumes "parseArgs (argv W) = Inr args"
    and "truthy_str (arg_config args) \<or> truthy_str (arg_test args)"
    and "resolveConfig R W args = Inr (cfg, hasExplicitReference)"
    and "\<not> arg_updateBaseline args"
    and "isCacheValid R (hash_file W) (test_file W) (config_object cfg)"
    and "urls_file W = Holds cached"
    and "hasExistingSnapshots (Some (snapshot_dir W))"
  shows "fst (main R W) =
           (if cached = [] then [ErrorMessage (Error ''No URLs found to test'')]
            else (case runPlaywright False (test_run W) of
                    Inl e \<Rightarrow> [RunPlaywright False (testUrl cfg), ErrorMessage e]
                  | Inr code \<Rightarrow> [RunPlaywright False (testUrl cfg)]))"
proof -
  note m = main_steps [OF assms(1-3) refl]
  from assms(4,5,6) have o: "obtain_urls R W cfg False = ([], Inr cached)"
    by (simp add: obtain_urls_def)
  from assms(7) have v: "runVisualTests W cfg False = compare_phase W cfg"
    by (simp add: runVisualTests_def)
  from m assms(4,5) o v show ?thesis
    by (auto simp: baseline_ambiguous_def after_gate_def compare_phase_def split: sum.splits)
qed

text \<open>The unchanged second run: only the comparison against the test target.\<close>

theorem valid_cache_reuses_everything_witness:
  "parseArgs (argv second_run) = Inr explicit_args
   \<and> resolveConfig sample_runtime second_run explicit_args = Inr (cfgA, True)
   \<and> \<not> arg_updateBaseline explicit_args
   \<and> isCacheValid sample_runtime (hash_file second_run) (test_file second_run)
       (config_object cfgA)
   \<and> urls_file second_run = Holds [''https://prod.example/'', ''https://prod.example/about'']
   \<and> hasExistingSnapshots (Some (snapshot_dir second_run))
   \<and> fst (main sample_runtime second_run)
       = [RunPlaywright False (Some ''https://stage.example'')]"
proof -
  have h1: "parseArgs (argv second_run) = Inr explicit_args"
    by code_simp
  have h2: "truthy_str (arg_config explicit_args) \<or> truthy_str (arg_test explicit_args)"
    by code_simp
  have h3: "resolveConfig sample_runtime second_run explicit_args = Inr (cfgA, True)"
    by code_simp
  have h4: "\<not> arg_updateBaseline explicit_args"
    by code_simp
  have h5: "isCacheValid sample_runtime (hash_file second_run) (test_file second_run)
              (config_object cfgA)"
    by code_simp
  have h6: "urls_file second_run
            = Holds [''https://prod.example/'', ''https://prod.example/about'']"
    by code_simp
  have h7: "hasExistingSnapshots (Some (snapshot_dir second_run))"
    by code_simp
  have r: "(if [''https://prod.example/'', ''https://prod.example/about''] = []
            then [ErrorMessage (Error ''No URLs found to test'')]
            else (case runPlaywright False (test_run second_run) of
                    Inl e \<Rightarrow> [RunPlaywright False (testUrl cfgA), ErrorMessage e]
                  | Inr code \<Rightarrow> [RunPlaywright False (testUrl cfgA)]))
           = [RunPlaywright False (Some ''https://stage.example'')]"
    by code_simp
  from valid_cache_reuses_everything [OF h1 h2 h3 h4 h5 h6 h7] r
  have "fst (main sample_runtime second_run)
        = [RunPlaywright False (Some ''https://stage.example'')]"
    by (rule trans)
  with h1 h3 h4 h5 h6 h7 show ?thesis by blast
qed

text \<open>
  Claim C3 as stated fails: the manifest is valid and no update is forced,
  but the snapshot directory holds no image, and the run captures a baseline
  from the reference target before it compares. Likewise, when the manifest
  is valid and the URL list is missing, the run discovers the URLs from the
  reference target again.
\<close>

theorem valid_cache_without_images_counterexample:
  "parseArgs (argv images_lost_run) = Inr explicit_args
   \<and> resolveConfig sample_runtime images_lost_run explicit_args = Inr (cfgA, True)
   \<and> \<not> arg_updateBaseline explicit_args
   \<and> isCacheValid sample_runtime (hash_file images_lost_run) (test_file images_lost_run)
       (config_object cfgA)
   \<and> main sample_runtime images_lost_run
       = ([RunPlaywright True (Some ''https://prod.example''),
           RunPlaywright False (Some ''https://stage.example'')], 0)
   \<and> parseArgs (argv urls_lost_run) = Inr explicit_args
   \<and> resolveConfig sample_runtime urls_lost_run explicit_args = Inr (cfgA, True)
   \<and> isCacheValid sample_runtime (hash_file urls_lost_run) (test_file urls_lost_run)
       (config_object cfgA)
   \<and> CollectURLs (Some ''https://prod.example'') \<in> set (fst (main sample_runtime urls_lost_run))"
  by code_simp

subsection \<open>C4: a missing results file\<close>

text \<open>
  Claim C4 says that with a missing or malformed results file the counts are
  all zero, the run does not crash, and the process ends with an error
  status. The counts are zero and \<open>parseResults\<close> sets its own exit code to
  1 (also for a results file that is \<open>null\<close> or whose specs cannot be
  iterated), but \<open>runVisualTests\<close> overwrites that code and \<open>main\<close> looks at
  the failure count only: the process of \<open>results_lost_run\<close>, whose
  comparison run ended with code 1 and left no results file, exits with 0.
\<close>

theorem missing_results_exit_status:
  "parseResults NoFile = \<lparr> passed = 0, failed = 0, total_tests = 0, exitCode = 1 \<rparr>
   \<and> parseResults Corrupt = \<lparr> passed = 0, failed = 0, total_tests = 0, exitCode = 1 \<rparr>
   \<and> parseResults (Holds JNull)
       = \<lparr> passed = 0, failed = 0, total_tests = 0, exitCode = 1 \<rparr>
   \<and> parseResults (Holds (JObj [(''suites'', JArr [JObj [(''specs'', JNum 5)]])]))
       = \<lparr> passed = 0, failed = 0, total_tests = 0, exitCode = 1 \<rparr>
   \<and> main sample_runtime results_lost_run
       = ([RunPlaywright False (Some ''https://stage.example'')], 0)
   \<and> main sample_runtime (results_lost_run\<lparr> results_file := Corrupt \<rparr>)
       = ([RunPlaywright False (Some ''https://stage.example'')], 0)"
  by code_simp

subsection \<open>C5: failures of the discovery\<close>




subsection \<open>C6: the default include list\<close>

text \<open>
  Claim C6. With the default include list (the user configures none, or the
  list is the one of \<open>DEFAULT_CONFIG\<close>) and globs matched as
  \<open>glob_isMatch\<close> does, the include list matches every path and query, and
  the filter keeps exactly the URLs of the reference host whose path and query
  match no exclude glob, in their order.
\<close>

theorem default_include_is_neutral:
  assumes "isMatch R = glob_isMatch"
    and "include_globs cfg = None \<or> include_globs cfg = include_globs DEFAULT_CONFIG"
    and "incl = (case include_globs cfg of None \<Rightarrow> [''*''] | Some i \<Rightarrow> i)"
    and "filterURLs R us baseUrl incl excl = Inr kept"
    and "new_URL R baseUrl = Some baseObj"
  shows "(\<forall>p. isMatch R p incl)
       \<and> kept = filter (\<lambda>u. case new_URL R u of
                              None \<Rightarrow> False
                            | Some urlObj \<Rightarrow>
                                hostname urlObj = hostname baseObj
                                \<and> \<not> isMatch R (pathname urlObj @ search urlObj) excl) us"
proof -
  from assms(2,3) have incl: "incl = [''*'']"
    by (auto simp: DEFAULT_CONFIG_def)
  from filterURLs_Inr [OF assms(4)] have
    k: "kept = filter (\<lambda>u. keep_url R baseUrl incl excl u = Inr True) us"
    by simp
  have "(keep_url R baseUrl incl excl u = Inr True)
        = (case new_URL R u of
             None \<Rightarrow> False
           | Some urlObj \<Rightarrow>
               hostname urlObj = hostname baseObj
               \<and> \<not> isMatch R (pathname urlObj @ search urlObj) excl)" for u
    using assms(1,5)
    by (auto simp: keep_url_def incl Let_def glob_isMatch_star glob_isMatch_Nil
             split: option.splits)
  with k show ?thesis
    by (simp add: incl assms(1) glob_isMatch_star)
qed

text \<open>The sitemap of the sample site under the default include list and the
  exclude list \<open>**/admin/**\<close>.\<close>

theorem default_include_is_neutral_witness:
  "isMatch sample_runtime = glob_isMatch
   \<and> include_globs cfgA = include_globs DEFAULT_CONFIG
   \<and> filterURLs sample_runtime prod_sitemap ''https://prod.example'' [''*''] [''**/admin/**'']
       = Inr [''https://prod.example/'', ''https://prod.example/about'', ''https://prod.example/'']
   \<and> new_URL sample_runtime ''https://prod.example'' = Some prod_url
   \<and> (\<forall>p. isMatch sample_runtime p [''*''])
   \<and> [''https://prod.example/'', ''https://prod.example/about'', ''https://prod.example/'']
       = filter (\<lambda>u. case new_URL sample_runtime u of
                        None \<Rightarrow> False
                      | Some urlObj \<Rightarrow>
                          hostname urlObj = hostname prod_url
                          \<and> \<not> isMatch sample_runtime (pathname urlObj @ search urlObj)
                                [''**/admin/**'']) prod_sitemap"
proof -
  have h1: "isMatch sample_runtime = glob_isMatch"
    by (simp add: sample_runtime_def)
  have e: "include_globs cfgA = include_globs DEFAULT_CONFIG"
    by code_simp
  then have h2: "include_globs cfgA = None \<or> include_globs cfgA = include_globs DEFAULT_CONFIG"
    by simp
  have h3: "[''*''] = (case include_globs cfgA of None \<Rightarrow> [''*''] | Some i \<Rightarrow> i)"
    by code_simp
  have h4: "filterURLs sample_runtime prod_sitemap ''https://prod.example'' [''*'']
              [''**/admin/**'']
            = Inr [''https://prod.example/'', ''https://prod.example/about'',
                   ''https://prod.example/'']"
    by code_simp
  have h5: "new_URL sample_runtime ''https://prod.example'' = Some prod_url"
    by code_simp
  show ?thesis
    using default_include_is_neutral [OF h1 h2 h3 h4 h5] h1 e h4 h5 by blast
qed

subsection \<open>C7: exclude wins over include\<close>

text \<open>
  Claim C7. With the exclude list \<open>**/admin/**\<close> and the include list
  \<open>**\<close>, a URL of the input whose path and query match the exclude
  pattern is not in the output of the filter, whatever the glob matcher makes
  of the include list.
\<close>

theorem exclude_wins_over_include:
  assumes "filterURLs R us baseUrl [''**''] [''**/admin/**''] = Inr kept"
    and "u \<in> set us"
    and "new_URL R u = Some urlObj"
    and "isMatch R (pathname urlObj @ search urlObj) [''**/admin/**'']"
  shows "u \<notin> set kept"
proof -
  from filterURLs_Inr [OF assms(1)] have
    k: "kept = filter (\<lambda>u. keep_url R baseUrl [''**''] [''**/admin/**''] u = Inr True) us"
    by simp
  from assms(3,4) have "keep_url R baseUrl [''**''] [''**/admin/**''] u \<noteq> Inr True"
    by (auto simp: keep_url_def Let_def split: option.splits)
  with k show ?thesis by simp
qed

text \<open>The page \<open>/admin/users\<close> of the sample site matches both lists and is
  removed.\<close>

theorem exclude_wins_over_include_witness:
  "filterURLs sample_runtime prod_sitemap ''https://prod.example'' [''**''] [''**/admin/**'']
     = Inr [''https://prod.example/'', ''https://prod.example/about'', ''https://prod.example/'']
   \<and> ''https://prod.example/admin/users'' \<in> set prod_sitemap
   \<and> new_URL sample_runtime ''https://prod.example/admin/users'' = Some admin_url
   \<and> isMatch sample_runtime (pathname admin_url @ search admin_url) [''**/admin/**'']
   \<and> isMatch sample_runtime (pathname admin_url @ search admin_url) [''**'']
   \<and> ''https://prod.example/admin/users''
       \<notin> set [''https://prod.example/'', ''https://prod.example/about'',
                ''https://prod.example/'']"
proof -
  have h1: "filterURLs sample_runtime prod_sitemap ''https://prod.example'' [''**'']
              [''**/admin/**'']
            = Inr [''https://prod.example/'', ''https://prod.example/about'',
                   ''https://prod.example/'']"
    by code_simp
  have h2: "''https://prod.example/admin/users'' \<in> set prod_sitemap"
    by code_simp
  have h3: "new_URL sample_runtime ''https://prod.example/admin/users'' = Some admin_url"
    by code_simp
  have h4: "isMatch sample_runtime (pathname admin_url @ search admin_url) [''**/admin/**'']"
    by code_simp
  have i: "isMatch sample_runtime (pathname admin_url @ search admin_url) [''**'']"
    by code_simp
  show ?thesis
    using exclude_wins_over_include [OF h1 h2 h3 h4] h1 h2 h3 h4 i by blast
qed

subsection \<open>C8: the order of the fields\<close>

text \<open>
  Claim C8. Two configuration objects that are equal after key-sorted
  canonicalization have equal fingerprints.
\<close>

theorem computeConfigHash_field_order:
  assumes "canonicalize (JObj a) = canonicalize (JObj b)"
  shows "computeConfigHash R a = computeConfigHash R b"
proof -
  let ?f = "\<lambda>(k, v). (k, canonicalize v)"
  from assms have eq: "sort_key fst (map ?f a) = sort_key fst (map ?f b)" by simp
  have fst: "map fst (map ?f xs) = map fst xs" for xs :: "(string \<times> json) list"
    by (induction xs) auto
  from eq have "map fst (sort_key fst (map ?f a)) = map fst (sort_key fst (map ?f b))"
    by simp
  then have "sort (map fst a) = sort (map fst b)"
    by (simp only: map_fst_sort_key fst)
  then have "set (sort (map fst a)) = set (sort (map fst b))" by simp
  then have keys: "set (map fst a) = set (map fst b)" by (simp only: set_sort)
  have "SerializeJSONProperty num K (JObj a) = SerializeJSONProperty num K (JObj b)" for K num
    using assms Serialize_canonicalize [of num K "JObj a"]
      Serialize_canonicalize [of num K "JObj b"]
    by simp
  then show ?thesis
    by (simp only: computeConfigHash_def JSON_stringify_def Object_keys_def sorted_keys keys
          Let_def)
qed

text \<open>The configuration of the sample run and the same object with the
  properties of every object reversed.\<close>

theorem computeConfigHash_field_order_witness:
  "canonicalize (JObj (config_object cfgA)) = canonicalize (JObj cfgA_reversed)
   \<and> config_object cfgA \<noteq> cfgA_reversed
   \<and> computeConfigHash sample_runtime (config_object cfgA)
       = computeConfigHash sample_runtime cfgA_reversed"
proof -
  have h: "canonicalize (JObj (config_object cfgA)) = canonicalize (JObj cfgA_reversed)"
    by code_simp
  have d: "config_object cfgA \<noteq> cfgA_reversed"
    by code_simp
  show ?thesis
    using h d computeConfigHash_field_order [OF h, of sample_runtime] by simp
qed

subsection \<open>C9: deduplication and truncation\<close>

text \<open>
  Claim C9, amended. What the filter returns is deduplicated keeping the
  first occurrence of each URL in first-seen order, so that no element is
  repeated. Then, with \<open>N\<close> the configured \<open>maxUrls\<close> when that is a positive
  integer and 25 when it is absent or 0, the result is the first \<open>N\<close>
  elements in that order when the deduplicated list is longer than \<open>N\<close>, and
  the deduplicated list unchanged when its length is at most \<open>N\<close>.
\<close>

theorem collectURLs_dedupe_then_limit:
  assumes "collectURLs R W cfg = Inr r"
    and "referenceUrl cfg = Some baseUrl"
    and "discover R W cfg baseUrl = Inr (found, src)"
    and "filterURLs R found baseUrl
           (case include_globs cfg of None \<Rightarrow> [''*''] | Some i \<Rightarrow> i)
           (case exclude cfg of None \<Rightarrow> [] | Some x \<Rightarrow> x) = Inr kept"
    and "N = (case maxUrls cfg of None \<Rightarrow> 25 | Some n \<Rightarrow> if n = 0 then 25 else n)"
    and "0 \<le> N"
  shows "distinct (first_occurrences kept)
       \<and> set (first_occurrences kept) = set kept
       \<and> filtered r = length (first_occurrences kept)
       \<and> (int (length (first_occurrences kept)) > N
            \<longrightarrow> urls r = take (nat N) (first_occurrences kept))
       \<and> (int (length (first_occurrences kept)) \<le> N
            \<longrightarrow> urls r = first_occurrences kept)"
proof -
  from assms(1) obtain baseUrl' found' src' kept' where
    b: "referenceUrl cfg = Some baseUrl'" and
    d: "discover R W cfg baseUrl' = Inr (found', src')" and
    f: "filterURLs R found' baseUrl'
          (case include_globs cfg of None \<Rightarrow> [''*''] | Some i \<Rightarrow> i)
          (case exclude cfg of None \<Rightarrow> [] | Some x \<Rightarrow> x) = Inr kept'" and
    r: "r = \<lparr> urls = slice0 (Array_from_Set kept')
                    (case maxUrls cfg of None \<Rightarrow> 25 | Some n \<Rightarrow> if n = 0 then 25 else n),
           source = src', total_urls = length found',
           filtered = length (Array_from_Set kept') \<rparr>"
    by (rule collectURLs_Inr)
  from b assms(2) have "baseUrl' = baseUrl" by simp
  with d assms(3) have "found' = found" by simp
  with f assms(4) \<open>baseUrl' = baseUrl\<close> have "kept' = kept" by simp
  with r assms(5) have u: "urls r = slice0 (first_occurrences kept) N"
    and c: "filtered r = length (first_occurrences kept)"
    by (simp_all add: Array_from_Set_first_occurrences)
  from u assms(6) have "urls r = take (nat N) (first_occurrences kept)"
    by (simp add: slice0_nonneg)
  with c show ?thesis
    by (auto simp: distinct_first_occurrences set_first_occurrences)
qed

text \<open>The sitemap of the sample site, where the home page is listed twice,
  under \<open>maxUrls = 2\<close>.\<close>

theorem collectURLs_dedupe_then_limit_witness:
  "collectURLs sample_runtime sample_web cfg_limit2
     = Inr \<lparr> urls = [''https://prod.example/'', ''https://prod.example/admin/users''],
             source = sitemap, total_urls = 4, filtered = 3 \<rparr>
   \<and> discover sample_runtime sample_web cfg_limit2 ''https://prod.example''
       = Inr (prod_sitemap, sitemap)
   \<and> first_occurrences prod_sitemap
       = [''https://prod.example/'', ''https://prod.example/admin/users'',
          ''https://prod.example/about'']
   \<and> [''https://prod.example/'', ''https://prod.example/admin/users'']
       = take (nat 2) (first_occurrences prod_sitemap)"
proof -
  let ?r = "\<lparr> urls = [''https://prod.example/'', ''https://prod.example/admin/users''],
              source = sitemap, total_urls = 4, filtered = 3 \<rparr>"
  have h1: "collectURLs sample_runtime sample_web cfg_limit2 = Inr ?r"
    by code_simp
  have h2: "referenceUrl cfg_limit2 = Some ''https://prod.example''"
    by code_simp
  have h3: "discover sample_runtime sample_web cfg_limit2 ''https://prod.example''
            = Inr (prod_sitemap, sitemap)"
    by code_simp
  have h4: "filterURLs sample_runtime prod_sitemap ''https://prod.example''
              (case include_globs cfg_limit2 of None \<Rightarrow> [''*''] | Some i \<Rightarrow> i)
              (case exclude cfg_limit2 of None \<Rightarrow> [] | Some x \<Rightarrow> x) = Inr prod_sitemap"
    by code_simp
  have h5: "2 = (case maxUrls cfg_limit2 of None \<Rightarrow> 25 | Some n \<Rightarrow> if n = 0 then 25 else n)"
    by code_simp
  have h6: "(0::int) \<le> 2"
    by simp
  have f: "first_occurrences prod_sitemap
           = [''https://prod.example/'', ''https://prod.example/admin/users'',
              ''https://prod.example/about'']"
    by code_simp
  have t: "[''https://prod.example/'', ''https://prod.example/admin/users'']
           = take (nat 2) (first_occurrences prod_sitemap)"
    by code_simp
  show ?thesis
    using collectURLs_dedupe_then_limit [OF h1 h2 h3 h4 h5 h6] h1 h3 f t by blast
qed

text \<open>
  Claim C9 as stated fails for \<open>maxUrls = 0\<close>: three URLs are left after
  deduplication, more than 0, and all three are returned, not the first 0.
  It fails for \<open>maxUrls = -1\<close> as well, where the limit of the slice is
  \<open>-1\<close> itself: the last of the three URLs is dropped.
\<close>

theorem limit_zero_counterexample:
  "maxUrls cfg_limit0 = Some 0
   \<and> first_occurrences prod_sitemap
       = [''https://prod.example/'', ''https://prod.example/admin/users'',
          ''https://prod.example/about'']
   \<and> collectURLs sample_runtime sample_web cfg_limit0
       = Inr \<lparr> urls = [''https://prod.example/'', ''https://prod.example/admin/users'',
                        ''https://prod.example/about''],
               source = sitemap, total_urls = 4, filtered = 3 \<rparr>
   \<and> [''https://prod.example/'', ''https://prod.example/admin/users'',
       ''https://prod.example/about'']
       \<noteq> take (nat 0) (first_occurrences prod_sitemap)
   \<and> maxUrls cfg_limit_negative = Some (- 1)
   \<and> collectURLs sample_runtime sample_web cfg_limit_negative
       = Inr \<lparr> urls = [''https://prod.example/'', ''https://prod.example/admin/users''],
               source = sitemap, total_urls = 4, filtered = 3 \<rparr>
   \<and> [''https://prod.example/'', ''https://prod.example/admin/users'']
       \<noteq> take (nat (- 1)) (first_occurrences prod_sitemap)"
  by code_simp

subsection \<open>C10: a \<open>maxUrls\<close> of zero\<close>




end
